theory Spec2Isabelle
  imports Main
begin

section \<open>Request values\<close>

text \<open>
  The controller reads untyped JSON from the request (\<open>req.body\<close>, \<open>req.query\<close>,
  \<open>req.params\<close>, \<open>req.user\<close>, \<open>req.cookies\<close>) and writes JSON objects with
  \<open>res.json\<close>. Both sides are values of \<open>jsval\<close>; an object is a list of
  fields. Numbers are the integers a JSON document can carry. The body, the
  query and the route parameters of a request are objects: the handlers
  destructure them, and what the routing and parsing middleware does with any
  other payload lies outside the controller.
\<close>

datatype jsval =
    JUndefined
  | JNull
  | JBool bool
  | JNum int
  | JStr string
  | JArr "jsval list"
  | JObj "(string \<times> jsval) list"

type_synonym jsobj = "(string \<times> jsval) list"

text \<open>JavaScript truthiness, as used by \<open>!req.user\<close> and \<open>id && ...\<close>.\<close>

fun truthy :: "jsval \<Rightarrow> bool" where
  "truthy JUndefined = False"
| "truthy JNull = False"
| "truthy (JBool b) = b"
| "truthy (JNum n) = (n \<noteq> 0)"
| "truthy (JStr s) = (s \<noteq> [])"
| "truthy (JArr xs) = True"
| "truthy (JObj fs) = True"

text \<open>Destructuring \<open>const { k } = obj\<close>: a missing property reads as \<open>undefined\<close>.\<close>

definition field :: "jsobj \<Rightarrow> string \<Rightarrow> jsval" where
  "field obj k = (case map_of obj k of None \<Rightarrow> JUndefined | Some v \<Rightarrow> v)"

record req =
  req_user :: jsval
  req_cookies :: jsval
  req_body :: jsobj
  req_query :: jsobj
  req_params :: jsobj

section \<open>Documents and the store\<close>

type_synonym oid = string

text \<open>
  Modelled from the spec: \<open>AdminSchemaType\<close>, \<open>MentorSchemaType\<close> and
  \<open>UserSchemaType\<close> are declared in \<open>../types\<close>, which is not part of the
  sources at hand. The records carry the fields the controller reads and writes
  (\<open>email\<close>, \<open>approved\<close>, \<open>top_mentor\<close>, \<open>mentor_information\<close>) and, for an
  admin account, the password hash and OTP state that the spec's data model lists.
\<close>

record admin =
  admin_name :: string
  admin_email :: string
  password :: string
  otp :: "string option"

record mentor =
  mentor_email :: string
  approved :: bool
  top_mentor :: bool

record user =
  user_email :: string
  mentor_information :: "oid option"

text \<open>
  The four collections. Admins are scanned by \<open>findOne\<close>, so their order matters;
  users and mentors are only reached by \<open>_id\<close>; banners are a plain list of the
  documents created from request bodies.
\<close>

record store =
  admins :: "(oid \<times> admin) list"
  users :: "oid \<rightharpoonup> user"
  mentors :: "oid \<rightharpoonup> mentor"
  banners :: "jsobj list"

text \<open>Every call the controller issues to the store or to the Notifier, in order.\<close>

datatype event =
    AdminFindOne jsval
  | MentorFindById oid
  | UserFindById oid
  | MentorSave oid
  | UserDelete oid
  | MentorDeleteOne "oid option"
  | BannerDeleteMany
  | BannerCreate jsobj
  | SendEmail string string string jsobj

record world =
  db :: store
  trace :: "event list"

definition issue :: "event \<Rightarrow> world \<Rightarrow> world" where
  "issue e w = w\<lparr>trace := trace w @ [e]\<rparr>"

section \<open>Collaborators\<close>

text \<open>
  The functions the controller imports and the methods of the admin document.
  Their code is outside the controller, so they are parameters, taken as total
  functions: every theorem below holds for all of them. \<open>generateOTP\<close> and
  \<open>verifyOTP\<close> return their result together with the document as they leave
  it. \<open>newBanner\<close> is the document that \<open>BannerModel.create\<close> builds from a
  payload and a freshly generated \<open>_id\<close> (the schema's casting and defaults).
\<close>

record env =
  isValidObjectId :: "jsval \<Rightarrow> bool"
  castObjectId :: "jsval \<Rightarrow> oid"
  matchesEmail :: "jsval \<Rightarrow> admin \<Rightarrow> bool"
  comparePassword :: "admin \<Rightarrow> jsval \<Rightarrow> bool"
  generateOTP :: "admin \<Rightarrow> string \<times> admin"
  verifyOTP :: "admin \<Rightarrow> jsval \<Rightarrow> bool \<times> admin"
  issueToken :: "oid \<Rightarrow> admin \<Rightarrow> string"
  newBanner :: "jsobj \<Rightarrow> oid \<Rightarrow> jsobj"

text \<open>
  What the outside world does during one invocation: which awaited calls reject,
  the id the mail service returns, the message of a store error, the \<open>_id\<close>
  generated for a created document, and the order
  in which the store applies the two banner operations that \<open>modifyBanner\<close>
  issues without awaiting one before starting the other.
\<close>

record io =
  find_fails :: bool
  save_fails :: bool
  user_delete_fails :: bool
  mentor_delete_fails :: bool
  banner_delete_fails :: bool
  banner_create_fails :: bool
  template_fails :: bool
  email_fails :: bool
  email_id :: string
  error_message :: string
  new_id :: oid
  create_first :: bool

datatype error = StoreError | TemplateError | EmailError

section \<open>Responses\<close>

record cookie =
  cookie_name :: string
  cookie_value :: string
  httpOnly :: bool
  maxAge :: nat

record response =
  status :: nat
  body :: jsobj
  set_cookies :: "cookie list"

definition reply :: "nat \<Rightarrow> jsobj \<Rightarrow> response" where
  "reply st b = \<lparr>status = st, body = b, set_cookies = []\<rparr>"

text \<open>
  A handler either sends a response (\<open>Inr\<close>) or its promise rejects with an
  error nobody catches (\<open>Inl\<close>), and it leaves a world behind in both cases.
\<close>

type_synonym outcome = "(error + response) \<times> world"

section \<open>Notification\<close>

text \<open>
  \<open>sendEmail(to, subject, makeTemplate(name, data))\<close>: the template is rendered
  first; only then is the mail call issued.
\<close>

definition sendTemplated ::
  "io \<Rightarrow> string \<Rightarrow> string \<Rightarrow> string \<Rightarrow> jsobj \<Rightarrow> world \<Rightarrow> (error + string) \<times> world" where
  "sendTemplated i to subject tname tdata w =
     (if template_fails i then (Inl TemplateError, w)
      else let w' = issue (SendEmail to subject tname tdata) w in
        if email_fails i then (Inl EmailError, w') else (Inr (email_id i), w'))"

section \<open>Authentication handlers\<close>

definition adminAuth :: "req \<Rightarrow> world \<Rightarrow> outcome" where
  "adminAuth r w =
     (if \<not> truthy (req_user r) then
        (Inr (reply 200
           [(''isLoggedIn'', JBool False),
            (''message'', JStr ''User is not logged in.''),
            (''user'', JObj [(''name'', JStr ''''), (''image_link'', JStr '''')]),
            (''cookies'', JUndefined)]), w)
      else
        (Inr (reply 200
           [(''isLoggedIn'', JBool True),
            (''message'', JStr ''User is logged in''),
            (''user'', req_user r),
            (''cookies'', req_cookies r)]), w))"

text \<open>\<open>AdminModel.findOne({ email })\<close>: the first admin the filter matches.\<close>

definition findAdmin :: "env \<Rightarrow> jsval \<Rightarrow> store \<Rightarrow> (oid \<times> admin) option" where
  "findAdmin e email s = find (\<lambda>(k, a). matchesEmail e email a) (admins s)"

text \<open>A method of the document that changes it leaves the change in the store.\<close>

fun replaceDoc :: "oid \<Rightarrow> admin \<Rightarrow> (oid \<times> admin) list \<Rightarrow> (oid \<times> admin) list" where
  "replaceDoc k a [] = []"
| "replaceDoc k a ((k', a') # rest) =
     (if k' = k then (k, a) # rest else (k', a') # replaceDoc k a rest)"

definition putAdmin :: "oid \<Rightarrow> admin \<Rightarrow> world \<Rightarrow> world" where
  "putAdmin k a w = w\<lparr>db := (db w)\<lparr>admins := replaceDoc k a (admins (db w))\<rparr>\<rparr>"

definition adminLogin :: "env \<Rightarrow> io \<Rightarrow> req \<Rightarrow> world \<Rightarrow> outcome" where
  "adminLogin e i r w =
     (let email = field (req_body r) ''email'';
          pw = field (req_body r) ''password'';
          w1 = issue (AdminFindOne email) w
      in if find_fails i then (Inl StoreError, w1)
      else case findAdmin e email (db w1) of
        None \<Rightarrow>
          (Inr (reply 401 [(''error'', JStr ''Invalid email or password'')]), w1)
      | Some (k, a) \<Rightarrow>
          if \<not> comparePassword e a pw then
            (Inr (reply 401 [(''error'', JStr ''Invalid email or password'')]), w1)
          else
            let (code, a') = generateOTP e a;
                w2 = putAdmin k a' w1
            in (case sendTemplated i (admin_email a') ''Vita Admin Login''
                      ''adminOtp.hbs'' [(''otp'', JStr code)] w2 of
                 (Inl err, w3) \<Rightarrow> (Inl err, w3)
               | (Inr eid, w3) \<Rightarrow>
                   (Inr (reply 200
                      [(''message'', JStr ''Email sent''), (''emailId'', JStr eid)]), w3)))"

text \<open>
  Modelled from the spec: how an admin document serialises when \<open>res.json\<close>
  is handed one is fixed by the schema in \<open>Models/Admins\<close>, which is not
  among the sources. The spec has verifyOtp return "the account profile (minus
  secrets)": the identity fields of the account, without the password hash and
  without the OTP state.
\<close>

definition toJSON :: "admin \<Rightarrow> jsobj" where
  "toJSON a = [(''name'', JStr (admin_name a)), (''email'', JStr (admin_email a))]"

definition adminVerifyOtp :: "env \<Rightarrow> io \<Rightarrow> req \<Rightarrow> world \<Rightarrow> outcome" where
  "adminVerifyOtp e i r w =
     (let email = field (req_body r) ''email'';
          code = field (req_body r) ''otp'';
          w1 = issue (AdminFindOne email) w
      in if find_fails i then (Inl StoreError, w1)
      else case findAdmin e email (db w1) of
        None \<Rightarrow>
          (Inr (reply 401 [(''error'', JStr ''Invalid email or password'')]), w1)
      | Some (k, a) \<Rightarrow>
          let (isOtpMatch, a') = verifyOTP e a code;
              w2 = putAdmin k a' w1
          in if \<not> isOtpMatch then
               (Inr (reply 401 [(''error'', JStr ''Invalid OTP'')]), w2)
             else
               let token = issueToken e k a' in
               (Inr \<lparr>status = 200,
                     body = [(''message'', JStr ''OTP verified''),
                             (''user'', JObj (toJSON a'))],
                     set_cookies =
                       [\<lparr>cookie_name = ''adminToken'', cookie_value = token,
                         httpOnly = True, maxAge = 1000 * 60 * 60 * 24 * 1\<rparr>]\<rparr>, w2))"

section \<open>Moderation handlers\<close>

definition approveMentor :: "env \<Rightarrow> io \<Rightarrow> req \<Rightarrow> world \<Rightarrow> outcome" where
  "approveMentor e i r w =
     (let ident = field (req_body r) ''id'' in
      if \<not> (truthy ident \<and> isValidObjectId e ident) then
        (Inr (reply 401 [(''error'', JStr ''Mentor Not Found'')]), w)
      else
        let k = castObjectId e ident;
            w1 = issue (MentorFindById k) w
        in if find_fails i then (Inl StoreError, w1)
        else case mentors (db w1) k of
          None \<Rightarrow> (Inr (reply 401 [(''error'', JStr ''Mentor Not Found'')]), w1)
        | Some m \<Rightarrow>
            let m' = m\<lparr>approved := True\<rparr>;
                w2 = issue (MentorSave k) w1
            in if save_fails i then (Inl StoreError, w2)
            else
              let w3 = w2\<lparr>db := (db w2)\<lparr>mentors := (mentors (db w2))(k \<mapsto> m')\<rparr>\<rparr>
              in (case sendTemplated i (mentor_email m') ''Vita Application Approved!''
                        ''acceptMentor.hbs'' [] w3 of
                   (Inl err, w4) \<Rightarrow>
                     (Inr (reply 500 [(''message'', JStr ''Email didn't sent'')]), w4)
                 | (Inr eid, w4) \<Rightarrow>
                     (Inr (reply 200
                        [(''success'', JBool True),
                         (''message'', JStr ''Mentor Approved!'')]), w4)))"

text \<open>
  \<open>Promise.all([user.delete(), MentorModel.deleteOne({ _id: user.mentor_information })])\<close>:
  both deletions are issued; each takes effect unless it rejects itself; the
  await rejects when either does. A filter on an absent \<open>_id\<close> matches nothing.
\<close>

definition cascadeDelete :: "io \<Rightarrow> oid \<Rightarrow> user \<Rightarrow> world \<Rightarrow> (error + unit) \<times> world" where
  "cascadeDelete i k u w =
     (let w1 = issue (MentorDeleteOne (mentor_information u)) (issue (UserDelete k) w);
          us = (if user_delete_fails i then users (db w1) else (users (db w1))(k := None));
          ms = (if mentor_delete_fails i then mentors (db w1)
                else case mentor_information u of
                       None \<Rightarrow> mentors (db w1)
                     | Some mk \<Rightarrow> (mentors (db w1))(mk := None));
          w2 = w1\<lparr>db := (db w1)\<lparr>users := us, mentors := ms\<rparr>\<rparr>
      in if user_delete_fails i \<or> mentor_delete_fails i then (Inl StoreError, w2)
         else (Inr (), w2))"

text \<open>The store after the two deletions of the cascade.\<close>

definition afterCascade :: "io \<Rightarrow> oid \<Rightarrow> user \<Rightarrow> store \<Rightarrow> store" where
  "afterCascade i k u s =
     s\<lparr>users := (if user_delete_fails i then users s else (users s)(k := None)),
       mentors := (if mentor_delete_fails i then mentors s
                   else case mentor_information u of
                          None \<Rightarrow> mentors s
                        | Some mk \<Rightarrow> (mentors s)(mk := None))\<rparr>"

definition rejectMentor :: "env \<Rightarrow> io \<Rightarrow> req \<Rightarrow> world \<Rightarrow> outcome" where
  "rejectMentor e i r w =
     (let ident = field (req_query r) ''id'' in
      if \<not> (truthy ident \<and> isValidObjectId e ident) then
        (Inr (reply 404 [(''message'', JStr ''User didn't found!'')]), w)
      else
        let k = castObjectId e ident;
            w1 = issue (UserFindById k) w
        in if find_fails i then (Inl StoreError, w1)
        else case users (db w1) k of
          None \<Rightarrow> (Inr (reply 404 [(''message'', JStr ''User didn't found!'')]), w1)
        | Some u \<Rightarrow>
            (case cascadeDelete i k u w1 of
               (Inl err, w2) \<Rightarrow> (Inl err, w2)
             | (Inr _, w2) \<Rightarrow>
                 (case sendTemplated i (user_email u) ''Vita Application rejected''
                         ''rejectMentor.hbs'' [] w2 of
                    (Inr eid, w3) \<Rightarrow>
                      (Inr (reply 200
                         [(''success'', JBool True),
                          (''message'', JStr ''Mentor rejected successfully!'')]), w3)
                  | (Inl err, w3) \<Rightarrow>
                      (Inr (reply 500 [(''message'', JStr ''Email didn't sent'')]), w3))))"

definition deleteUser :: "env \<Rightarrow> io \<Rightarrow> req \<Rightarrow> world \<Rightarrow> outcome" where
  "deleteUser e i r w =
     (let ident = field (req_params r) ''id'' in
      if \<not> (truthy ident \<and> isValidObjectId e ident) then
        (Inr (reply 404 [(''error'', JStr ''User not found'')]), w)
      else
        let k = castObjectId e ident;
            w1 = issue (UserFindById k) w
        in if find_fails i then (Inl StoreError, w1)
        else case users (db w1) k of
          None \<Rightarrow> (Inr (reply 404 [(''error'', JStr ''User not found'')]), w1)
        | Some u \<Rightarrow>
            (case cascadeDelete i k u w1 of
               (Inl err, w2) \<Rightarrow> (Inl err, w2)
             | (Inr _, w2) \<Rightarrow>
                 (case sendTemplated i (user_email u) ''User account deleted''
                         ''accountDeleted.hbs'' [(''email'', JStr (user_email u))] w2 of
                    (Inr eid, w3) \<Rightarrow>
                      (Inr (reply 200
                         [(''success'', JBool True),
                          (''message'', JStr ''Mentor rejected successfully!'')]), w3)
                  | (Inl err, w3) \<Rightarrow>
                      (Inr (reply 500 [(''message'', JStr ''Email didn't sent'')]), w3))))"

definition changeTopMentorStatus :: "env \<Rightarrow> io \<Rightarrow> req \<Rightarrow> world \<Rightarrow> outcome" where
  "changeTopMentorStatus e i r w =
     (let ident = field (req_body r) ''id'' in
      if \<not> (truthy ident \<and> isValidObjectId e ident) then
        (Inr (reply 401 [(''error'', JStr ''Mentor Not Found'')]), w)
      else
        let k = castObjectId e ident;
            w1 = issue (MentorFindById k) w
        in if find_fails i then (Inl StoreError, w1)
        else case mentors (db w1) k of
          None \<Rightarrow> (Inr (reply 401 [(''error'', JStr ''Mentor Not Found'')]), w1)
        | Some m \<Rightarrow>
            let m' = m\<lparr>top_mentor := \<not> top_mentor m\<rparr>;
                w2 = issue (MentorSave k) w1
            in if save_fails i then (Inl StoreError, w2)
            else
              let w3 = w2\<lparr>db := (db w2)\<lparr>mentors := (mentors (db w2))(k \<mapsto> m')\<rparr>\<rparr>
              in (case sendTemplated i (mentor_email m') ''Vita top mentor''
                        ''topMentor.hbs'' [(''top_mentor'', JBool (top_mentor m'))] w3 of
                   (Inl err, w4) \<Rightarrow>
                     (Inr (reply 500 [(''message'', JStr ''Email didn't sent'')]), w4)
                 | (Inr eid, w4) \<Rightarrow>
                     (Inr (reply 200
                        [(''success'', JBool True),
                         (''message'', JStr ''Mentor Approved!'')]), w4)))"

section \<open>The banner\<close>

text \<open>
  \<open>BannerModel.deleteMany({})\<close> builds a query and \<open>BannerModel.create(req.body)\<close>
  starts the insert; \<open>Promise.all\<close> then runs the query and awaits both. Neither
  operation waits for the other, so the handler does not fix the order in which
  the store applies them: \<open>create_first\<close> gives it. Each takes effect unless
  it rejects itself; the handler answers 500 when either rejects. The record
  inserted, and returned as \<open>banner\<close>, is the document created from the body.
\<close>

definition applyDelete :: "io \<Rightarrow> world \<Rightarrow> world" where
  "applyDelete i w =
     (let w1 = issue BannerDeleteMany w in
      if banner_delete_fails i then w1 else w1\<lparr>db := (db w1)\<lparr>banners := []\<rparr>\<rparr>)"

definition applyCreate :: "env \<Rightarrow> io \<Rightarrow> jsobj \<Rightarrow> world \<Rightarrow> world" where
  "applyCreate e i b w =
     (let w1 = issue (BannerCreate b) w in
      if banner_create_fails i then w1
      else w1\<lparr>db := (db w1)\<lparr>banners := banners (db w1) @ [newBanner e b (new_id i)]\<rparr>\<rparr>)"

definition modifyBanner :: "env \<Rightarrow> io \<Rightarrow> req \<Rightarrow> world \<Rightarrow> outcome" where
  "modifyBanner e i r w =
     (let w' = (if create_first i then applyDelete i (applyCreate e i (req_body r) w)
                else applyCreate e i (req_body r) (applyDelete i w))
      in if banner_create_fails i \<or> banner_delete_fails i then
           (Inr (reply 500
              [(''success'', JBool False), (''message'', JStr (error_message i))]), w')
         else
           (Inr (reply 200
              [(''success'', JBool True),
               (''banner'', JObj (newBanner e (req_body r) (new_id i)))]), w'))"

section \<open>An example deployment\<close>

text \<open>
  Concrete collaborators and a small store, used to run the handlers: ids are
  24-character strings, the email filter compares by equality, verifying an
  OTP consumes it, and a created banner is the payload with its \<open>_id\<close>.
\<close>

definition plain_env :: env where
  "plain_env =
     \<lparr>isValidObjectId = (\<lambda>v. case v of JStr s \<Rightarrow> length s = 24 | _ \<Rightarrow> False),
      castObjectId = (\<lambda>v. case v of JStr s \<Rightarrow> s | _ \<Rightarrow> []),
      matchesEmail = (\<lambda>v a. v = JStr (admin_email a)),
      comparePassword = (\<lambda>a v. v = JStr ''right''),
      generateOTP = (\<lambda>a. (''424242'', a\<lparr>otp := Some ''424242''\<rparr>)),
      verifyOTP = (\<lambda>a v. (case otp a of None \<Rightarrow> (False, a)
                               | Some c \<Rightarrow> if v = JStr c then (True, a\<lparr>otp := None\<rparr>)
                                           else (False, a))),
      issueToken = (\<lambda>k a. ''token:'' @ k),
      newBanner = (\<lambda>b k. (''_id'', JStr k) # b)\<rparr>"

definition io_ok :: io where
  "io_ok =
     \<lparr>find_fails = False, save_fails = False, user_delete_fails = False,
      mentor_delete_fails = False, banner_delete_fails = False,
      banner_create_fails = False, template_fails = False, email_fails = False,
      email_id = ''mail-1'', error_message = ''write failed'',
      new_id = ''507f1f77bcf86cd799439012'', create_first = False\<rparr>"

definition mentor_id :: oid where
  "mentor_id = ''507f1f77bcf86cd799439011''"

definition user_id :: oid where
  "user_id = ''507f191e810c19729de860ea''"

definition sample_admin :: admin where
  "sample_admin =
     \<lparr>admin_name = ''Root'', admin_email = ''a@x.com'',
      password = ''$2a$10$N9qo8uLOickgx2ZMRZoMye'', otp = Some ''424242''\<rparr>"

definition sample_mentor :: mentor where
  "sample_mentor = \<lparr>mentor_email = ''m@x.com'', approved = False, top_mentor = False\<rparr>"

definition sample_user :: user where
  "sample_user = \<lparr>user_email = ''m@x.com'', mentor_information = Some mentor_id\<rparr>"

definition sample_world :: world where
  "sample_world =
     \<lparr>db = \<lparr>admins = [(''admin-1'', sample_admin)],
             users = [user_id \<mapsto> sample_user],
             mentors = [mentor_id \<mapsto> sample_mentor],
             banners = [[(''text'', JStr ''old banner'')]]\<rparr>,
      trace = []\<rparr>"

definition request :: "jsobj \<Rightarrow> jsobj \<Rightarrow> jsobj \<Rightarrow> req" where
  "request b q p =
     \<lparr>req_user = JUndefined, req_cookies = JUndefined,
      req_body = b, req_query = q, req_params = p\<rparr>"

text \<open>
  Forgetting the subject, template and template data of a mail: two traces
  equal under \<open>blind\<close> issue the same calls to the same recipients.
\<close>

fun blind :: "event \<Rightarrow> event" where
  "blind (SendEmail to subject tname tdata) = SendEmail to [] [] []"
| "blind ev = ev"

text \<open>Invocations in which one awaited call rejects, and sample requests.\<close>

definition io_mail_down :: io where
  "io_mail_down = io_ok\<lparr>email_fails := True\<rparr>"

definition moderation_req :: req where
  "moderation_req =
     request [(''id'', JStr mentor_id)] [(''id'', JStr user_id)] [(''id'', JStr user_id)]"

definition io_user_delete_down :: io where
  "io_user_delete_down = io_ok\<lparr>user_delete_fails := True\<rparr>"

definition io_create_down :: io where
  "io_create_down = io_ok\<lparr>banner_create_fails := True\<rparr>"

definition io_create_first :: io where
  "io_create_first = io_ok\<lparr>create_first := True\<rparr>"

definition banner_req :: "string \<Rightarrow> req" where
  "banner_req t = request [(''text'', JStr t)] [] []"

definition verify_req :: req where
  "verify_req = request [(''email'', JStr ''a@x.com''), (''otp'', JStr ''424242'')] [] []"

text \<open>Requests as the routes deliver them: the id in one place only.\<close>

definition approve_req :: req where
  "approve_req = request [(''id'', JStr mentor_id)] [] []"

definition reject_req :: req where
  "reject_req = request [] [(''id'', JStr user_id)] []"

definition delete_req :: req where
  "delete_req = request [] [] [(''id'', JStr user_id)]"

section \<open>What each handler does, case by case\<close>

lemma db_issue: "db (issue ev w) = db w"
  by (simp add: issue_def)

lemma approveMentor_found:
  assumes "truthy (field (req_body r) ''id'')"
    and "isValidObjectId e (field (req_body r) ''id'')"
    and "\<not> find_fails i"
    and "mentors (db w) (castObjectId e (field (req_body r) ''id'')) = Some m"
  shows "approveMentor e i r w =
    (let k = castObjectId e (field (req_body r) ''id'') in
     if save_fails i then
       (Inl StoreError, w\<lparr>trace := trace w @ [MentorFindById k, MentorSave k]\<rparr>)
     else
       (Inr (if template_fails i \<or> email_fails i
             then reply 500 [(''message'', JStr ''Email didn't sent'')]
             else reply 200 [(''success'', JBool True), (''message'', JStr ''Mentor Approved!'')]),
        w\<lparr>db := (db w)\<lparr>mentors := (mentors (db w))(k \<mapsto> m\<lparr>approved := True\<rparr>)\<rparr>,
          trace := trace w @ [MentorFindById k, MentorSave k] @
            (if template_fails i then []
             else [SendEmail (mentor_email m) ''Vita Application Approved!''
                     ''acceptMentor.hbs'' []])\<rparr>))"
  using assms
  by (simp add: approveMentor_def Let_def issue_def sendTemplated_def)

lemma changeTopMentorStatus_found:
  assumes "truthy (field (req_body r) ''id'')"
    and "isValidObjectId e (field (req_body r) ''id'')"
    and "\<not> find_fails i"
    and "mentors (db w) (castObjectId e (field (req_body r) ''id'')) = Some m"
  shows "changeTopMentorStatus e i r w =
    (let k = castObjectId e (field (req_body r) ''id'') in
     if save_fails i then
       (Inl StoreError, w\<lparr>trace := trace w @ [MentorFindById k, MentorSave k]\<rparr>)
     else
       (Inr (if template_fails i \<or> email_fails i
             then reply 500 [(''message'', JStr ''Email didn't sent'')]
             else reply 200 [(''success'', JBool True), (''message'', JStr ''Mentor Approved!'')]),
        w\<lparr>db := (db w)\<lparr>mentors :=
                 (mentors (db w))(k \<mapsto> m\<lparr>top_mentor := \<not> top_mentor m\<rparr>)\<rparr>,
          trace := trace w @ [MentorFindById k, MentorSave k] @
            (if template_fails i then []
             else [SendEmail (mentor_email m) ''Vita top mentor'' ''topMentor.hbs''
                     [(''top_mentor'', JBool (\<not> top_mentor m))]])\<rparr>))"
  using assms
  by (simp add: changeTopMentorStatus_def Let_def issue_def sendTemplated_def)

lemma cascadeDelete_eq:
  "cascadeDelete i k u w =
     (if user_delete_fails i \<or> mentor_delete_fails i then Inl StoreError else Inr (),
      w\<lparr>db := afterCascade i k u (db w),
        trace := trace w @ [UserDelete k, MentorDeleteOne (mentor_information u)]\<rparr>)"
  by (simp add: cascadeDelete_def afterCascade_def Let_def issue_def split: option.split)

lemma rejectMentor_found:
  assumes "truthy (field (req_query r) ''id'')"
    and "isValidObjectId e (field (req_query r) ''id'')"
    and "\<not> find_fails i"
    and "users (db w) (castObjectId e (field (req_query r) ''id'')) = Some u"
  shows "rejectMentor e i r w =
    (let k = castObjectId e (field (req_query r) ''id'');
         calls = [UserFindById k, UserDelete k, MentorDeleteOne (mentor_information u)]
     in if user_delete_fails i \<or> mentor_delete_fails i then
       (Inl StoreError, w\<lparr>db := afterCascade i k u (db w), trace := trace w @ calls\<rparr>)
     else
       (Inr (if template_fails i \<or> email_fails i
             then reply 500 [(''message'', JStr ''Email didn't sent'')]
             else reply 200 [(''success'', JBool True),
                             (''message'', JStr ''Mentor rejected successfully!'')]),
        w\<lparr>db := afterCascade i k u (db w),
          trace := trace w @ calls @
            (if template_fails i then []
             else [SendEmail (user_email u) ''Vita Application rejected''
                     ''rejectMentor.hbs'' []])\<rparr>))"
  using assms
  by (simp add: rejectMentor_def cascadeDelete_eq Let_def issue_def sendTemplated_def)

lemma deleteUser_found:
  assumes "truthy (field (req_params r) ''id'')"
    and "isValidObjectId e (field (req_params r) ''id'')"
    and "\<not> find_fails i"
    and "users (db w) (castObjectId e (field (req_params r) ''id'')) = Some u"
  shows "deleteUser e i r w =
    (let k = castObjectId e (field (req_params r) ''id'');
         calls = [UserFindById k, UserDelete k, MentorDeleteOne (mentor_information u)]
     in if user_delete_fails i \<or> mentor_delete_fails i then
       (Inl StoreError, w\<lparr>db := afterCascade i k u (db w), trace := trace w @ calls\<rparr>)
     else
       (Inr (if template_fails i \<or> email_fails i
             then reply 500 [(''message'', JStr ''Email didn't sent'')]
             else reply 200 [(''success'', JBool True),
                             (''message'', JStr ''Mentor rejected successfully!'')]),
        w\<lparr>db := afterCascade i k u (db w),
          trace := trace w @ calls @
            (if template_fails i then []
             else [SendEmail (user_email u) ''User account deleted''
                     ''accountDeleted.hbs'' [(''email'', JStr (user_email u))]])\<rparr>))"
  using assms
  by (simp add: deleteUser_def cascadeDelete_eq Let_def issue_def sendTemplated_def)

section \<open>Authentication\<close>

text \<open>
  C4: \<open>adminAuth\<close> (whoAmI) never fails. For every request it sends a response
  with status 200 and leaves the world as it found it; with no principal on the
  request the body says \<open>isLoggedIn: false\<close>.
\<close>

theorem adminAuth_never_fails:
  "(\<exists>resp. adminAuth r w = (Inr resp, w) \<and> status resp = 200) \<and>
   adminAuth (r\<lparr>req_user := JUndefined\<rparr>) w =
     (Inr (reply 200
        [(''isLoggedIn'', JBool False),
         (''message'', JStr ''User is not logged in.''),
         (''user'', JObj [(''name'', JStr ''''), (''image_link'', JStr '''')]),
         (''cookies'', JUndefined)]), w)"
  by (simp add: adminAuth_def reply_def)

text \<open>
  C3: a login with an email no admin has and a login with an existing email but
  a password that does not match send the same response, status 401 with the
  payload \<open>{error: 'Invalid email or password'}\<close>, and neither changes the store.
\<close>

theorem adminLogin_no_enumeration:
  assumes "\<not> find_fails i1" and "\<not> find_fails i2"
    and "findAdmin e (field (req_body r1) ''email'') (db w1) = None"
    and "findAdmin e (field (req_body r2) ''email'') (db w2) = Some (k, a)"
    and "\<not> comparePassword e a (field (req_body r2) ''password'')"
  shows "fst (adminLogin e i1 r1 w1) = Inr (reply 401 [(''error'', JStr ''Invalid email or password'')])
       \<and> fst (adminLogin e i2 r2 w2) = fst (adminLogin e i1 r1 w1)
       \<and> db (snd (adminLogin e i1 r1 w1)) = db w1
       \<and> db (snd (adminLogin e i2 r2 w2)) = db w2"
  using assms by (simp add: adminLogin_def Let_def db_issue)

theorem adminLogin_no_enumeration_witness:
  "fst (adminLogin plain_env io_ok
          (request [(''email'', JStr ''nobody@x.com''), (''password'', JStr ''right'')] [] [])
          sample_world)
     = Inr (reply 401 [(''error'', JStr ''Invalid email or password'')])
   \<and> fst (adminLogin plain_env io_ok
          (request [(''email'', JStr ''a@x.com''), (''password'', JStr ''wrong'')] [] [])
          sample_world)
     = Inr (reply 401 [(''error'', JStr ''Invalid email or password'')])"
  using adminLogin_no_enumeration [of io_ok io_ok plain_env
      "request [(''email'', JStr ''nobody@x.com''), (''password'', JStr ''right'')] [] []"
      sample_world
      "request [(''email'', JStr ''a@x.com''), (''password'', JStr ''wrong'')] [] []"
      sample_world "''admin-1''" sample_admin]
  by (simp add: io_ok_def plain_env_def request_def sample_world_def sample_admin_def
      findAdmin_def field_def)

text \<open>
  C2: when the account exists and \<open>verifyOTP\<close> accepts the candidate,
  \<open>adminVerifyOtp\<close> answers 200, sets the http-only cookie \<open>adminToken\<close> with
  a \<open>maxAge\<close> of 86400 seconds (in milliseconds), and returns \<open>message\<close>
  together with the account's profile: its name and email, and nothing that
  depends on the password hash or the OTP state.
\<close>

theorem adminVerifyOtp_success:
  assumes "\<not> find_fails i"
    and "findAdmin e (field (req_body r) ''email'') (db w) = Some (k, a)"
    and "verifyOTP e a (field (req_body r) ''otp'') = (True, a')"
  shows "fst (adminVerifyOtp e i r w) =
           Inr \<lparr>status = 200,
                body = [(''message'', JStr ''OTP verified''),
                        (''user'', JObj [(''name'', JStr (admin_name a')),
                                         (''email'', JStr (admin_email a'))])],
                set_cookies =
                  [\<lparr>cookie_name = ''adminToken'', cookie_value = issueToken e k a',
                    httpOnly = True, maxAge = 86400 * 1000\<rparr>]\<rparr>
       \<and> toJSON (a'\<lparr>password := p, otp := c\<rparr>) = toJSON a'"
  using assms by (simp add: adminVerifyOtp_def toJSON_def Let_def db_issue)

theorem adminVerifyOtp_success_witness:
  "fst (adminVerifyOtp plain_env io_ok verify_req sample_world) =
     Inr \<lparr>status = 200,
          body = [(''message'', JStr ''OTP verified''),
                  (''user'', JObj [(''name'', JStr ''Root''), (''email'', JStr ''a@x.com'')])],
          set_cookies =
            [\<lparr>cookie_name = ''adminToken'', cookie_value = ''token:admin-1'',
              httpOnly = True, maxAge = 86400000\<rparr>]\<rparr>"
  using adminVerifyOtp_success [of io_ok plain_env verify_req sample_world "''admin-1''"
      sample_admin "sample_admin\<lparr>otp := None\<rparr>"]
  by (simp add: plain_env_def io_ok_def verify_req_def request_def sample_world_def
      sample_admin_def findAdmin_def field_def)

section \<open>Moderation\<close>

text \<open>
  C5: each of \<open>approveMentor\<close>, \<open>changeTopMentorStatus\<close>, \<open>rejectMentor\<close> and
  \<open>deleteUser\<close> reads the id from its own place in the request (body, body,
  query, route parameter). An id that is absent, falsy or rejected by
  \<open>isValidObjectId\<close> never reaches the store: the handler answers with the
  endpoint's not-found response and leaves the world (store and call trace)
  untouched. A usable id that matches no record gets the very same response;
  the only call issued is the lookup itself.
\<close>

theorem bad_id_is_not_found:
  fixes r :: req and e :: env and i :: io and w :: world
  defines "mentorNotFound \<equiv> Inr (reply 401 [(''error'', JStr ''Mentor Not Found'')])"
  defines "userDidntFound \<equiv> Inr (reply 404 [(''message'', JStr ''User didn't found!'')])"
  defines "userNotFound \<equiv> Inr (reply 404 [(''error'', JStr ''User not found'')])"
  defines "b \<equiv> field (req_body r) ''id''"
  defines "q \<equiv> field (req_query r) ''id''"
  defines "p \<equiv> field (req_params r) ''id''"
  shows "(\<not> (truthy b \<and> isValidObjectId e b) \<longrightarrow>
            approveMentor e i r w = (mentorNotFound, w))
       \<and> (truthy b \<and> isValidObjectId e b \<and> \<not> find_fails i
            \<and> mentors (db w) (castObjectId e b) = None \<longrightarrow>
            approveMentor e i r w =
              (mentorNotFound, w\<lparr>trace := trace w @ [MentorFindById (castObjectId e b)]\<rparr>))
       \<and> (\<not> (truthy b \<and> isValidObjectId e b) \<longrightarrow>
            changeTopMentorStatus e i r w = (mentorNotFound, w))
       \<and> (truthy b \<and> isValidObjectId e b \<and> \<not> find_fails i
            \<and> mentors (db w) (castObjectId e b) = None \<longrightarrow>
            changeTopMentorStatus e i r w =
              (mentorNotFound, w\<lparr>trace := trace w @ [MentorFindById (castObjectId e b)]\<rparr>))
       \<and> (\<not> (truthy q \<and> isValidObjectId e q) \<longrightarrow>
            rejectMentor e i r w = (userDidntFound, w))
       \<and> (truthy q \<and> isValidObjectId e q \<and> \<not> find_fails i
            \<and> users (db w) (castObjectId e q) = None \<longrightarrow>
            rejectMentor e i r w =
              (userDidntFound, w\<lparr>trace := trace w @ [UserFindById (castObjectId e q)]\<rparr>))
       \<and> (\<not> (truthy p \<and> isValidObjectId e p) \<longrightarrow>
            deleteUser e i r w = (userNotFound, w))
       \<and> (truthy p \<and> isValidObjectId e p \<and> \<not> find_fails i
            \<and> users (db w) (castObjectId e p) = None \<longrightarrow>
            deleteUser e i r w =
              (userNotFound, w\<lparr>trace := trace w @ [UserFindById (castObjectId e p)]\<rparr>))"
proof -
  have approve_bad: "approveMentor e i r w = (mentorNotFound, w)"
    if "\<not> (truthy b \<and> isValidObjectId e b)"
    using that by (simp add: approveMentor_def Let_def b_def mentorNotFound_def)
  have approve_none: "approveMentor e i r w =
      (mentorNotFound, w\<lparr>trace := trace w @ [MentorFindById (castObjectId e b)]\<rparr>)"
    if "truthy b" "isValidObjectId e b" "\<not> find_fails i"
       "mentors (db w) (castObjectId e b) = None"
    using that by (simp add: approveMentor_def Let_def issue_def b_def mentorNotFound_def)
  have top_bad: "changeTopMentorStatus e i r w = (mentorNotFound, w)"
    if "\<not> (truthy b \<and> isValidObjectId e b)"
    using that by (simp add: changeTopMentorStatus_def Let_def b_def mentorNotFound_def)
  have top_none: "changeTopMentorStatus e i r w =
      (mentorNotFound, w\<lparr>trace := trace w @ [MentorFindById (castObjectId e b)]\<rparr>)"
    if "truthy b" "isValidObjectId e b" "\<not> find_fails i"
       "mentors (db w) (castObjectId e b) = None"
    using that
    by (simp add: changeTopMentorStatus_def Let_def issue_def b_def mentorNotFound_def)
  have reject_bad: "rejectMentor e i r w = (userDidntFound, w)"
    if "\<not> (truthy q \<and> isValidObjectId e q)"
    using that by (simp add: rejectMentor_def Let_def q_def userDidntFound_def)
  have reject_none: "rejectMentor e i r w =
      (userDidntFound, w\<lparr>trace := trace w @ [UserFindById (castObjectId e q)]\<rparr>)"
    if "truthy q" "isValidObjectId e q" "\<not> find_fails i"
       "users (db w) (castObjectId e q) = None"
    using that by (simp add: rejectMentor_def Let_def issue_def q_def userDidntFound_def)
  have delete_bad: "deleteUser e i r w = (userNotFound, w)"
    if "\<not> (truthy p \<and> isValidObjectId e p)"
    using that by (simp add: deleteUser_def Let_def p_def userNotFound_def)
  have delete_none: "deleteUser e i r w =
      (userNotFound, w\<lparr>trace := trace w @ [UserFindById (castObjectId e p)]\<rparr>)"
    if "truthy p" "isValidObjectId e p" "\<not> find_fails i"
       "users (db w) (castObjectId e p) = None"
    using that by (simp add: deleteUser_def Let_def issue_def p_def userNotFound_def)
  show ?thesis
    using approve_bad approve_none top_bad top_none reject_bad reject_none
      delete_bad delete_none
    by blast
qed

theorem bad_id_is_not_found_witness:
  "approveMentor plain_env io_ok (request [] [] []) sample_world
     = (Inr (reply 401 [(''error'', JStr ''Mentor Not Found'')]), sample_world)
   \<and> approveMentor plain_env io_ok (request [(''id'', JStr user_id)] [] []) sample_world
     = (Inr (reply 401 [(''error'', JStr ''Mentor Not Found'')]),
        sample_world\<lparr>trace := [MentorFindById user_id]\<rparr>)
   \<and> changeTopMentorStatus plain_env io_ok (request [(''id'', JNum 7)] [] []) sample_world
     = (Inr (reply 401 [(''error'', JStr ''Mentor Not Found'')]), sample_world)
   \<and> changeTopMentorStatus plain_env io_ok (request [(''id'', JStr user_id)] [] [])
       sample_world
     = (Inr (reply 401 [(''error'', JStr ''Mentor Not Found'')]),
        sample_world\<lparr>trace := [MentorFindById user_id]\<rparr>)
   \<and> rejectMentor plain_env io_ok (request [] [(''id'', JStr ''42'')] []) sample_world
     = (Inr (reply 404 [(''message'', JStr ''User didn't found!'')]), sample_world)
   \<and> rejectMentor plain_env io_ok (request [] [(''id'', JStr mentor_id)] []) sample_world
     = (Inr (reply 404 [(''message'', JStr ''User didn't found!'')]),
        sample_world\<lparr>trace := [UserFindById mentor_id]\<rparr>)
   \<and> deleteUser plain_env io_ok (request [] [] [(''id'', JStr '''')]) sample_world
     = (Inr (reply 404 [(''error'', JStr ''User not found'')]), sample_world)
   \<and> deleteUser plain_env io_ok (request [] [] [(''id'', JStr mentor_id)]) sample_world
     = (Inr (reply 404 [(''error'', JStr ''User not found'')]),
        sample_world\<lparr>trace := [UserFindById mentor_id]\<rparr>)"
  using bad_id_is_not_found [of "request [] [] []" plain_env io_ok sample_world]
    bad_id_is_not_found [of "request [(''id'', JStr user_id)] [] []" plain_env io_ok
      sample_world]
    bad_id_is_not_found [of "request [(''id'', JNum 7)] [] []" plain_env io_ok sample_world]
    bad_id_is_not_found [of "request [] [(''id'', JStr ''42'')] []" plain_env io_ok
      sample_world]
    bad_id_is_not_found [of "request [] [(''id'', JStr mentor_id)] []" plain_env io_ok
      sample_world]
    bad_id_is_not_found [of "request [] [] [(''id'', JStr '''')]" plain_env io_ok sample_world]
    bad_id_is_not_found [of "request [] [] [(''id'', JStr mentor_id)]" plain_env io_ok
      sample_world]
  by (simp add: plain_env_def io_ok_def request_def sample_world_def field_def
      user_id_def mentor_id_def)

text \<open>
  C1: in each of \<open>approveMentor\<close>, \<open>changeTopMentorStatus\<close>, \<open>rejectMentor\<close>
  and \<open>deleteUser\<close>, reading the id from its own place in the request, once
  the lookup and the mutation have succeeded the store call of the mutation
  precedes the mail call in the trace, and a failure of the notification
  (rendering the template or sending the mail) makes the handler answer 500
  \<open>Email didn't sent\<close> while the store stays exactly as the mutation left it.
\<close>

theorem mutation_survives_notification_failure:
  fixes r :: req and e :: env and i :: io and w :: world and m :: mentor and u :: user
  defines "mailFailed \<equiv> Inr (reply 500 [(''message'', JStr ''Email didn't sent'')])"
  defines "bk \<equiv> castObjectId e (field (req_body r) ''id'')"
  defines "qk \<equiv> castObjectId e (field (req_query r) ''id'')"
  defines "pk \<equiv> castObjectId e (field (req_params r) ''id'')"
  defines "linked \<equiv> (case mentor_information u of
                         None \<Rightarrow> mentors (db w)
                       | Some l \<Rightarrow> (mentors (db w))(l := None))"
  shows "(truthy (field (req_body r) ''id'') \<and> isValidObjectId e (field (req_body r) ''id'')
            \<and> mentors (db w) bk = Some m \<and> \<not> find_fails i \<and> \<not> save_fails i
            \<and> (template_fails i \<or> email_fails i) \<longrightarrow>
          approveMentor e i r w =
            (mailFailed,
             w\<lparr>db := (db w)\<lparr>mentors := (mentors (db w))(bk \<mapsto> m\<lparr>approved := True\<rparr>)\<rparr>,
               trace := trace w @ [MentorFindById bk, MentorSave bk] @
                 (if template_fails i then []
                  else [SendEmail (mentor_email m) ''Vita Application Approved!''
                          ''acceptMentor.hbs'' []])\<rparr>))
       \<and> (truthy (field (req_body r) ''id'') \<and> isValidObjectId e (field (req_body r) ''id'')
            \<and> mentors (db w) bk = Some m \<and> \<not> find_fails i \<and> \<not> save_fails i
            \<and> (template_fails i \<or> email_fails i) \<longrightarrow>
          changeTopMentorStatus e i r w =
            (mailFailed,
             w\<lparr>db := (db w)\<lparr>mentors :=
                      (mentors (db w))(bk \<mapsto> m\<lparr>top_mentor := \<not> top_mentor m\<rparr>)\<rparr>,
               trace := trace w @ [MentorFindById bk, MentorSave bk] @
                 (if template_fails i then []
                  else [SendEmail (mentor_email m) ''Vita top mentor'' ''topMentor.hbs''
                          [(''top_mentor'', JBool (\<not> top_mentor m))]])\<rparr>))
       \<and> (truthy (field (req_query r) ''id'') \<and> isValidObjectId e (field (req_query r) ''id'')
            \<and> users (db w) qk = Some u \<and> \<not> find_fails i
            \<and> \<not> user_delete_fails i \<and> \<not> mentor_delete_fails i
            \<and> (template_fails i \<or> email_fails i) \<longrightarrow>
          rejectMentor e i r w =
            (mailFailed,
             w\<lparr>db := (db w)\<lparr>users := (users (db w))(qk := None), mentors := linked\<rparr>,
               trace := trace w @
                 [UserFindById qk, UserDelete qk, MentorDeleteOne (mentor_information u)] @
                 (if template_fails i then []
                  else [SendEmail (user_email u) ''Vita Application rejected''
                          ''rejectMentor.hbs'' []])\<rparr>))
       \<and> (truthy (field (req_params r) ''id'')
            \<and> isValidObjectId e (field (req_params r) ''id'')
            \<and> users (db w) pk = Some u \<and> \<not> find_fails i
            \<and> \<not> user_delete_fails i \<and> \<not> mentor_delete_fails i
            \<and> (template_fails i \<or> email_fails i) \<longrightarrow>
          deleteUser e i r w =
            (mailFailed,
             w\<lparr>db := (db w)\<lparr>users := (users (db w))(pk := None), mentors := linked\<rparr>,
               trace := trace w @
                 [UserFindById pk, UserDelete pk, MentorDeleteOne (mentor_information u)] @
                 (if template_fails i then []
                  else [SendEmail (user_email u) ''User account deleted''
                          ''accountDeleted.hbs'' [(''email'', JStr (user_email u))]])\<rparr>))"
proof -
  have gone: "afterCascade i k u (db w) = (db w)\<lparr>users := (users (db w))(k := None),
      mentors := linked\<rparr>"
    if "\<not> user_delete_fails i" "\<not> mentor_delete_fails i" for k
    using that by (simp add: afterCascade_def linked_def)
  have a: "approveMentor e i r w =
            (mailFailed,
             w\<lparr>db := (db w)\<lparr>mentors := (mentors (db w))(bk \<mapsto> m\<lparr>approved := True\<rparr>)\<rparr>,
               trace := trace w @ [MentorFindById bk, MentorSave bk] @
                 (if template_fails i then []
                  else [SendEmail (mentor_email m) ''Vita Application Approved!''
                          ''acceptMentor.hbs'' []])\<rparr>)"
    if "truthy (field (req_body r) ''id'')" "isValidObjectId e (field (req_body r) ''id'')"
       "mentors (db w) bk = Some m" "\<not> find_fails i" "\<not> save_fails i"
       "template_fails i \<or> email_fails i"
    using approveMentor_found [of r e i w m] that
    by (simp add: Let_def bk_def mailFailed_def)
  have c: "changeTopMentorStatus e i r w =
            (mailFailed,
             w\<lparr>db := (db w)\<lparr>mentors :=
                      (mentors (db w))(bk \<mapsto> m\<lparr>top_mentor := \<not> top_mentor m\<rparr>)\<rparr>,
               trace := trace w @ [MentorFindById bk, MentorSave bk] @
                 (if template_fails i then []
                  else [SendEmail (mentor_email m) ''Vita top mentor'' ''topMentor.hbs''
                          [(''top_mentor'', JBool (\<not> top_mentor m))]])\<rparr>)"
    if "truthy (field (req_body r) ''id'')" "isValidObjectId e (field (req_body r) ''id'')"
       "mentors (db w) bk = Some m" "\<not> find_fails i" "\<not> save_fails i"
       "template_fails i \<or> email_fails i"
    using changeTopMentorStatus_found [of r e i w m] that
    by (simp add: Let_def bk_def mailFailed_def)
  have rj: "rejectMentor e i r w =
            (mailFailed,
             w\<lparr>db := (db w)\<lparr>users := (users (db w))(qk := None), mentors := linked\<rparr>,
               trace := trace w @
                 [UserFindById qk, UserDelete qk, MentorDeleteOne (mentor_information u)] @
                 (if template_fails i then []
                  else [SendEmail (user_email u) ''Vita Application rejected''
                          ''rejectMentor.hbs'' []])\<rparr>)"
    if "truthy (field (req_query r) ''id'')" "isValidObjectId e (field (req_query r) ''id'')"
       "users (db w) qk = Some u" "\<not> find_fails i"
       "\<not> user_delete_fails i" "\<not> mentor_delete_fails i"
       "template_fails i \<or> email_fails i"
    using rejectMentor_found [of r e i w u] that gone [of qk]
    by (simp add: Let_def qk_def mailFailed_def)
  have d: "deleteUser e i r w =
            (mailFailed,
             w\<lparr>db := (db w)\<lparr>users := (users (db w))(pk := None), mentors := linked\<rparr>,
               trace := trace w @
                 [UserFindById pk, UserDelete pk, MentorDeleteOne (mentor_information u)] @
                 (if template_fails i then []
                  else [SendEmail (user_email u) ''User account deleted''
                          ''accountDeleted.hbs'' [(''email'', JStr (user_email u))]])\<rparr>)"
    if "truthy (field (req_params r) ''id'')" "isValidObjectId e (field (req_params r) ''id'')"
       "users (db w) pk = Some u" "\<not> find_fails i"
       "\<not> user_delete_fails i" "\<not> mentor_delete_fails i"
       "template_fails i \<or> email_fails i"
    using deleteUser_found [of r e i w u] that gone [of pk]
    by (simp add: Let_def pk_def mailFailed_def)
  show ?thesis using a c rj d by blast
qed

theorem mutation_survives_notification_failure_witness:
  "approveMentor plain_env io_mail_down approve_req sample_world
     = (Inr (reply 500 [(''message'', JStr ''Email didn't sent'')]),
        sample_world
          \<lparr>db := (db sample_world)
               \<lparr>mentors := (mentors (db sample_world))
                              (mentor_id \<mapsto> sample_mentor\<lparr>approved := True\<rparr>)\<rparr>,
           trace := [MentorFindById mentor_id, MentorSave mentor_id,
                     SendEmail ''m@x.com'' ''Vita Application Approved!''
                       ''acceptMentor.hbs'' []]\<rparr>)
   \<and> changeTopMentorStatus plain_env io_mail_down approve_req sample_world
     = (Inr (reply 500 [(''message'', JStr ''Email didn't sent'')]),
        sample_world
          \<lparr>db := (db sample_world)
               \<lparr>mentors := (mentors (db sample_world))
                              (mentor_id \<mapsto> sample_mentor\<lparr>top_mentor := True\<rparr>)\<rparr>,
           trace := [MentorFindById mentor_id, MentorSave mentor_id,
                     SendEmail ''m@x.com'' ''Vita top mentor'' ''topMentor.hbs''
                       [(''top_mentor'', JBool True)]]\<rparr>)
   \<and> rejectMentor plain_env io_mail_down reject_req sample_world
     = (Inr (reply 500 [(''message'', JStr ''Email didn't sent'')]),
        sample_world
          \<lparr>db := (db sample_world)
               \<lparr>users := (users (db sample_world))(user_id := None),
                mentors := (mentors (db sample_world))(mentor_id := None)\<rparr>,
           trace := [UserFindById user_id, UserDelete user_id,
                     MentorDeleteOne (Some mentor_id),
                     SendEmail ''m@x.com'' ''Vita Application rejected''
                       ''rejectMentor.hbs'' []]\<rparr>)
   \<and> deleteUser plain_env io_mail_down delete_req sample_world
     = (Inr (reply 500 [(''message'', JStr ''Email didn't sent'')]),
        sample_world
          \<lparr>db := (db sample_world)
               \<lparr>users := (users (db sample_world))(user_id := None),
                mentors := (mentors (db sample_world))(mentor_id := None)\<rparr>,
           trace := [UserFindById user_id, UserDelete user_id,
                     MentorDeleteOne (Some mentor_id),
                     SendEmail ''m@x.com'' ''User account deleted'' ''accountDeleted.hbs''
                       [(''email'', JStr ''m@x.com'')]]\<rparr>)"
  using mutation_survives_notification_failure [of approve_req plain_env sample_world
      sample_mentor io_mail_down sample_user]
    mutation_survives_notification_failure [of reject_req plain_env sample_world
      sample_mentor io_mail_down sample_user]
    mutation_survives_notification_failure [of delete_req plain_env sample_world
      sample_mentor io_mail_down sample_user]
  by (simp add: plain_env_def io_ok_def io_mail_down_def approve_req_def reject_req_def
      delete_req_def request_def sample_world_def sample_user_def sample_mentor_def
      field_def user_id_def mentor_id_def)

text \<open>
  C8: \<open>rejectMentor\<close> (id in the query) and \<open>deleteUser\<close> (id in the route
  parameter), on an id that resolves to a user, issue both deletions before any
  mail call. When both succeed the handler responds, the user record and the
  mentor profile it links to are gone from the store, and this holds whatever
  the mail service does afterwards. When either deletion rejects, the handler
  fails with the store error and no mail call is issued.
\<close>

theorem cascade_completes_before_notification:
  fixes r :: req and e :: env and i :: io and w :: world and u :: user
  defines "qk \<equiv> castObjectId e (field (req_query r) ''id'')"
  defines "pk \<equiv> castObjectId e (field (req_params r) ''id'')"
  shows "(truthy (field (req_query r) ''id'') \<and> isValidObjectId e (field (req_query r) ''id'')
            \<and> users (db w) qk = Some u \<and> \<not> find_fails i \<longrightarrow>
          (if user_delete_fails i \<or> mentor_delete_fails i then
             fst (rejectMentor e i r w) = Inl StoreError
           \<and> trace (snd (rejectMentor e i r w)) = trace w @
                [UserFindById qk, UserDelete qk, MentorDeleteOne (mentor_information u)]
           else
             \<not> isl (fst (rejectMentor e i r w))
           \<and> users (db (snd (rejectMentor e i r w))) qk = None
           \<and> (case mentor_information u of None \<Rightarrow> True
               | Some l \<Rightarrow> mentors (db (snd (rejectMentor e i r w))) l = None)
           \<and> trace (snd (rejectMentor e i r w)) = trace w @
                [UserFindById qk, UserDelete qk, MentorDeleteOne (mentor_information u)] @
                (if template_fails i then []
                 else [SendEmail (user_email u) ''Vita Application rejected''
                         ''rejectMentor.hbs'' []])))
       \<and> (truthy (field (req_params r) ''id'')
            \<and> isValidObjectId e (field (req_params r) ''id'')
            \<and> users (db w) pk = Some u \<and> \<not> find_fails i \<longrightarrow>
          (if user_delete_fails i \<or> mentor_delete_fails i then
             fst (deleteUser e i r w) = Inl StoreError
           \<and> trace (snd (deleteUser e i r w)) = trace w @
                [UserFindById pk, UserDelete pk, MentorDeleteOne (mentor_information u)]
           else
             \<not> isl (fst (deleteUser e i r w))
           \<and> users (db (snd (deleteUser e i r w))) pk = None
           \<and> (case mentor_information u of None \<Rightarrow> True
               | Some l \<Rightarrow> mentors (db (snd (deleteUser e i r w))) l = None)
           \<and> trace (snd (deleteUser e i r w)) = trace w @
                [UserFindById pk, UserDelete pk, MentorDeleteOne (mentor_information u)] @
                (if template_fails i then []
                 else [SendEmail (user_email u) ''User account deleted''
                         ''accountDeleted.hbs'' [(''email'', JStr (user_email u))]])))"
proof -
  have rj: "truthy (field (req_query r) ''id'') \<and> isValidObjectId e (field (req_query r) ''id'')
            \<and> users (db w) qk = Some u \<and> \<not> find_fails i \<longrightarrow>
          (if user_delete_fails i \<or> mentor_delete_fails i then
             fst (rejectMentor e i r w) = Inl StoreError
           \<and> trace (snd (rejectMentor e i r w)) = trace w @
                [UserFindById qk, UserDelete qk, MentorDeleteOne (mentor_information u)]
           else
             \<not> isl (fst (rejectMentor e i r w))
           \<and> users (db (snd (rejectMentor e i r w))) qk = None
           \<and> (case mentor_information u of None \<Rightarrow> True
               | Some l \<Rightarrow> mentors (db (snd (rejectMentor e i r w))) l = None)
           \<and> trace (snd (rejectMentor e i r w)) = trace w @
                [UserFindById qk, UserDelete qk, MentorDeleteOne (mentor_information u)] @
                (if template_fails i then []
                 else [SendEmail (user_email u) ''Vita Application rejected''
                         ''rejectMentor.hbs'' []]))"
    using rejectMentor_found [of r e i w u]
    by (simp add: Let_def afterCascade_def qk_def split: option.split)
  have d: "truthy (field (req_params r) ''id'')
            \<and> isValidObjectId e (field (req_params r) ''id'')
            \<and> users (db w) pk = Some u \<and> \<not> find_fails i \<longrightarrow>
          (if user_delete_fails i \<or> mentor_delete_fails i then
             fst (deleteUser e i r w) = Inl StoreError
           \<and> trace (snd (deleteUser e i r w)) = trace w @
                [UserFindById pk, UserDelete pk, MentorDeleteOne (mentor_information u)]
           else
             \<not> isl (fst (deleteUser e i r w))
           \<and> users (db (snd (deleteUser e i r w))) pk = None
           \<and> (case mentor_information u of None \<Rightarrow> True
               | Some l \<Rightarrow> mentors (db (snd (deleteUser e i r w))) l = None)
           \<and> trace (snd (deleteUser e i r w)) = trace w @
                [UserFindById pk, UserDelete pk, MentorDeleteOne (mentor_information u)] @
                (if template_fails i then []
                 else [SendEmail (user_email u) ''User account deleted''
                         ''accountDeleted.hbs'' [(''email'', JStr (user_email u))]]))"
    using deleteUser_found [of r e i w u]
    by (simp add: Let_def afterCascade_def pk_def split: option.split)
  from rj d show ?thesis by (rule conjI)
qed

theorem cascade_completes_before_notification_witness:
  "users (db (snd (rejectMentor plain_env io_mail_down reject_req sample_world))) user_id
     = None
   \<and> mentors (db (snd (rejectMentor plain_env io_mail_down reject_req sample_world)))
       mentor_id = None
   \<and> trace (snd (rejectMentor plain_env io_mail_down reject_req sample_world))
       = [UserFindById user_id, UserDelete user_id, MentorDeleteOne (Some mentor_id),
          SendEmail ''m@x.com'' ''Vita Application rejected'' ''rejectMentor.hbs'' []]
   \<and> fst (rejectMentor plain_env io_user_delete_down reject_req sample_world)
       = Inl StoreError
   \<and> trace (snd (rejectMentor plain_env io_user_delete_down reject_req sample_world))
       = [UserFindById user_id, UserDelete user_id, MentorDeleteOne (Some mentor_id)]
   \<and> users (db (snd (deleteUser plain_env io_mail_down delete_req sample_world))) user_id
       = None
   \<and> mentors (db (snd (deleteUser plain_env io_mail_down delete_req sample_world)))
       mentor_id = None
   \<and> trace (snd (deleteUser plain_env io_mail_down delete_req sample_world))
       = [UserFindById user_id, UserDelete user_id, MentorDeleteOne (Some mentor_id),
          SendEmail ''m@x.com'' ''User account deleted'' ''accountDeleted.hbs''
            [(''email'', JStr ''m@x.com'')]]
   \<and> fst (deleteUser plain_env io_user_delete_down delete_req sample_world)
       = Inl StoreError
   \<and> trace (snd (deleteUser plain_env io_user_delete_down delete_req sample_world))
       = [UserFindById user_id, UserDelete user_id, MentorDeleteOne (Some mentor_id)]"
  using cascade_completes_before_notification [of reject_req plain_env sample_world
      sample_user io_mail_down]
    cascade_completes_before_notification [of reject_req plain_env sample_world
      sample_user io_user_delete_down]
    cascade_completes_before_notification [of delete_req plain_env sample_world
      sample_user io_mail_down]
    cascade_completes_before_notification [of delete_req plain_env sample_world
      sample_user io_user_delete_down]
  by (simp add: plain_env_def io_ok_def io_mail_down_def io_user_delete_down_def
      reject_req_def delete_req_def request_def sample_world_def sample_user_def field_def
      user_id_def mentor_id_def)

text \<open>
  C9: for the same id, store and outcomes of the awaited calls, \<open>deleteUser\<close>
  leaves exactly the store that \<open>rejectMentor\<close> leaves, answers with the same
  status and issues the same calls; only the subject and template of the mail
  and the response text differ.
\<close>

theorem deleteUser_same_cascade_as_rejectMentor:
  assumes "field (req_query r1) ''id'' = field (req_params r2) ''id''"
  shows "db (snd (rejectMentor e i r1 w)) = db (snd (deleteUser e i r2 w))
       \<and> map_sum id status (fst (rejectMentor e i r1 w))
           = map_sum id status (fst (deleteUser e i r2 w))
       \<and> map blind (trace (snd (rejectMentor e i r1 w)))
           = map blind (trace (snd (deleteUser e i r2 w)))"
  using assms
  by (simp add: rejectMentor_def deleteUser_def Let_def cascadeDelete_eq sendTemplated_def
      issue_def reply_def split: option.split)

theorem deleteUser_same_cascade_as_rejectMentor_witness:
  "field (req_query moderation_req) ''id'' = JStr user_id
   \<and> field (req_params moderation_req) ''id'' = JStr user_id
   \<and> db (snd (rejectMentor plain_env io_ok moderation_req sample_world))
     = db (snd (deleteUser plain_env io_ok moderation_req sample_world))
   \<and> map_sum id status (fst (rejectMentor plain_env io_ok moderation_req sample_world))
     = map_sum id status (fst (deleteUser plain_env io_ok moderation_req sample_world))"
  using deleteUser_same_cascade_as_rejectMentor [of moderation_req moderation_req plain_env
      io_ok sample_world]
  by (simp add: moderation_req_def request_def field_def)

text \<open>
  C7: on an existing mentor, one \<open>changeTopMentorStatus\<close> whose save succeeds
  negates \<open>top_mentor\<close>, and a second one restores the record; both calls
  send a response, whatever the mail service does.
\<close>

theorem changeTopMentorStatus_involution:
  assumes "truthy (field (req_body r) ''id'')"
    and "isValidObjectId e (field (req_body r) ''id'')"
    and "mentors (db w) (castObjectId e (field (req_body r) ''id'')) = Some m"
    and "\<not> find_fails i1" and "\<not> save_fails i1"
    and "\<not> find_fails i2" and "\<not> save_fails i2"
  shows "\<not> isl (fst (changeTopMentorStatus e i1 r w))
       \<and> mentors (db (snd (changeTopMentorStatus e i1 r w)))
            (castObjectId e (field (req_body r) ''id''))
           = Some (m\<lparr>top_mentor := \<not> top_mentor m\<rparr>)
       \<and> \<not> isl (fst (changeTopMentorStatus e i2 r (snd (changeTopMentorStatus e i1 r w))))
       \<and> mentors (db (snd (changeTopMentorStatus e i2 r
                              (snd (changeTopMentorStatus e i1 r w)))))
            (castObjectId e (field (req_body r) ''id''))
           = Some m"
proof -
  let ?k = "castObjectId e (field (req_body r) ''id'')"
  let ?w1 = "snd (changeTopMentorStatus e i1 r w)"
  have one: "\<not> isl (fst (changeTopMentorStatus e i1 r w))"
       "mentors (db ?w1) ?k = Some (m\<lparr>top_mentor := \<not> top_mentor m\<rparr>)"
    using changeTopMentorStatus_found [of r e i1 w m] assms by (simp_all add: Let_def)
  have two: "\<not> isl (fst (changeTopMentorStatus e i2 r ?w1))"
       "mentors (db (snd (changeTopMentorStatus e i2 r ?w1))) ?k = Some m"
    using changeTopMentorStatus_found [of r e i2 ?w1 "m\<lparr>top_mentor := \<not> top_mentor m\<rparr>"]
      assms one(2) by (simp_all add: Let_def)
  from one two show ?thesis by simp
qed

theorem changeTopMentorStatus_involution_witness:
  "mentors (db (snd (changeTopMentorStatus plain_env io_ok moderation_req sample_world)))
       mentor_id
     = Some (sample_mentor\<lparr>top_mentor := True\<rparr>)
   \<and> mentors (db (snd (changeTopMentorStatus plain_env io_mail_down moderation_req
          (snd (changeTopMentorStatus plain_env io_ok moderation_req sample_world)))))
       mentor_id
     = Some sample_mentor"
  using changeTopMentorStatus_involution [of moderation_req plain_env sample_world
      sample_mentor io_ok io_mail_down]
  by (simp add: plain_env_def io_ok_def io_mail_down_def moderation_req_def request_def
      sample_world_def sample_mentor_def field_def mentor_id_def)

section \<open>The banner, replaced\<close>

text \<open>
  When both operations succeed and the store applies the deletion before the
  insertion, the handler answers 200 with the created banner and the collection
  holds that document alone, whatever it held before.
\<close>

lemma modifyBanner_delete_first:
  assumes "\<not> banner_create_fails i" and "\<not> banner_delete_fails i"
    and "\<not> create_first i"
  shows "modifyBanner e i r w =
           (Inr (reply 200 [(''success'', JBool True),
                            (''banner'', JObj (newBanner e (req_body r) (new_id i)))]),
            w\<lparr>db := (db w)\<lparr>banners := [newBanner e (req_body r) (new_id i)]\<rparr>,
              trace := trace w @ [BannerDeleteMany, BannerCreate (req_body r)]\<rparr>)"
  using assms
  by (simp add: modifyBanner_def applyDelete_def applyCreate_def issue_def Let_def)

text \<open>
  C6: after a successful \<open>modifyBanner\<close> exactly one banner should exist, the
  one just sent. The handler does not order its two store operations, and in
  the run below, where both succeed and the insertion is applied before the
  delete-all, it answers 200 with the new banner while the collection is left
  empty: the delete-all removed the banner that had just been inserted.
\<close>

theorem modifyBanner_insert_first_leaves_no_banner:
  "banners (db sample_world) = [[(''text'', JStr ''old banner'')]]
   \<and> modifyBanner plain_env io_create_first (banner_req ''new banner'') sample_world
     = (Inr (reply 200
          [(''success'', JBool True),
           (''banner'', JObj [(''_id'', JStr ''507f1f77bcf86cd799439012''),
                              (''text'', JStr ''new banner'')])]),
        sample_world
          \<lparr>db := (db sample_world)\<lparr>banners := []\<rparr>,
           trace := [BannerCreate [(''text'', JStr ''new banner'')], BannerDeleteMany]\<rparr>)"
  by (simp add: modifyBanner_def applyDelete_def applyCreate_def issue_def Let_def
      io_create_first_def io_ok_def plain_env_def banner_req_def request_def
      sample_world_def)

text \<open>
  C10: \<open>modifyBanner\<close> is not atomic. When the insert fails the handler answers
  500 with the error's message, the delete-all has been issued all the same,
  and nothing restores what it removed: unless the deletion itself rejects, the
  collection is left empty.
\<close>

theorem modifyBanner_not_atomic:
  assumes "banner_create_fails i"
  shows "fst (modifyBanner e i r w) =
           Inr (reply 500 [(''success'', JBool False), (''message'', JStr (error_message i))])
       \<and> trace (snd (modifyBanner e i r w)) =
           trace w @ (if create_first i then [BannerCreate (req_body r), BannerDeleteMany]
                      else [BannerDeleteMany, BannerCreate (req_body r)])
       \<and> banners (db (snd (modifyBanner e i r w))) =
           (if banner_delete_fails i then banners (db w) else [])"
  using assms
  by (simp add: modifyBanner_def applyDelete_def applyCreate_def issue_def Let_def)

theorem modifyBanner_not_atomic_witness:
  "banners (db sample_world) = [[(''text'', JStr ''old banner'')]]
   \<and> fst (modifyBanner plain_env io_create_down (banner_req ''new banner'') sample_world)
     = Inr (reply 500 [(''success'', JBool False), (''message'', JStr ''write failed'')])
   \<and> banners (db (snd (modifyBanner plain_env io_create_down (banner_req ''new banner'') sample_world)))
     = []"
  using modifyBanner_not_atomic [of io_create_down plain_env "banner_req ''new banner''" sample_world]
  by (simp add: io_create_down_def io_ok_def sample_world_def)

end
